theory Spec2Isabelle
  imports Complex_Main
begin

section \<open>Data model of the block editor (RichNoteEditor.tsx)\<close>

text \<open>
  A JavaScript \<open>number\<close> is a double. The model keeps the three non-finite values and
  takes the finite ones to be integers: every number the editor itself creates
  (\<open>width: 100\<close>, the seeded chart values, \<open>parseInt\<close> of the range slider) is one.
  Fractional values and the sign of zero are outside the model.
\<close>

datatype number = Finite int | NaN | PosInfinity | NegInfinity

datatype BlockType = BText | BImage | BTable | BChart

datatype ChartType = LineChart | BarChart

record TableData =
  rows :: "string list list"
  colHeaders :: "string list option"
  rowHeaders :: "string list option"

record DataPoint =
  point_name :: string
  point_value :: number

record ChartData =
  chart_type :: ChartType
  title :: "string option"
  xAxisLabel :: "string option"
  yAxisLabel :: "string option"
  chart_data :: "DataPoint list"

record Block =
  block_id :: string
  block_type :: BlockType
  content :: string
  width :: "number option"
  tableData :: "TableData option"
  chartData :: "ChartData option"

text \<open>The only exception the modelled code can raise: reading a property of \<open>undefined\<close>.\<close>

datatype error = TypeError

subsection \<open>Number-to-string conversions used by the editor\<close>

definition digit_char :: "nat \<Rightarrow> char" where
  "digit_char d = char_of (48 + d)"

text \<open>\<open>n.toString()\<close> for a non-negative integer \<open>n\<close>.\<close>

fun nat_toString :: "nat \<Rightarrow> string" where
  "nat_toString n =
     (if n < 10 then [digit_char n] else nat_toString (n div 10) @ [digit_char (n mod 10)])"

declare nat_toString.simps [simp del]

text \<open>
  \<open>String.fromCharCode(n)\<close>. A \<open>char\<close> of HOL has 8 bits where a JavaScript code unit
  has 16, so the two agree for \<open>n < 256\<close>.
\<close>

definition fromCharCode :: "nat \<Rightarrow> string" where
  "fromCharCode n = [char_of n]"

text \<open>\<open>xs.filter((_, i) => i !== index)\<close>.\<close>

definition filterIndexNot :: "nat \<Rightarrow> 'a list \<Rightarrow> 'a list" where
  "filterIndexNot index xs = map snd (filter (\<lambda>(i, _). i \<noteq> index) (enumerate 0 xs))"

subsection \<open>Block-level handlers of \<open>RichNoteEditor\<close>\<close>

text \<open>
  Each handler computes the array it passes to \<open>updateBlocks\<close>. \<open>Date.now()\<close> is a
  parameter of the model.
\<close>

definition emptyTextBlock :: "string \<Rightarrow> Block" where
  "emptyTextBlock i =
     \<lparr>block_id = i, block_type = BText, content = [], width = None,
      tableData = None, chartData = None\<rparr>"





text \<open>
  \<open>blocks.length <= 1 && blocks[0].type === 'text'\<close>: with an empty array the second
  operand reads \<open>.type\<close> of \<open>undefined\<close> and throws.
\<close>

definition removeBlock :: "nat \<Rightarrow> string \<Rightarrow> Block list \<Rightarrow> error + Block list" where
  "removeBlock now i blocks =
     (if length blocks \<le> 1 then
        (case blocks of
           [] \<Rightarrow> Inl TypeError
         | b # _ \<Rightarrow>
             if block_type b = BText then Inr [emptyTextBlock (nat_toString now)]
             else Inr (filter (\<lambda>b. block_id b \<noteq> i) blocks))
      else Inr (filter (\<lambda>b. block_id b \<noteq> i) blocks))"

definition addImageBlock :: "nat \<Rightarrow> nat \<Rightarrow> string \<Rightarrow> Block list \<Rightarrow> Block list" where
  "addImageBlock now now' src blocks =
     blocks @
     [\<lparr>block_id = nat_toString now, block_type = BImage, content = src,
       width = Some (Finite 100), tableData = None, chartData = None\<rparr>,
      emptyTextBlock (nat_toString (now' + 1))]"

definition defaultTable :: TableData where
  "defaultTable =
     \<lparr>rows = [[[], [], []], [[], [], []]],
      colHeaders = Some [''A'', ''B'', ''C''],
      rowHeaders = Some [''1'', ''2'']\<rparr>"

definition addTableBlock :: "nat \<Rightarrow> nat \<Rightarrow> Block list \<Rightarrow> Block list" where
  "addTableBlock now now' blocks =
     blocks @
     [\<lparr>block_id = nat_toString now, block_type = BTable, content = [],
       width = None, tableData = Some defaultTable, chartData = None\<rparr>,
      emptyTextBlock (nat_toString (now' + 1))]"

definition defaultChart :: ChartData where
  "defaultChart =
     \<lparr>chart_type = LineChart, title = Some ''New Research Chart'',
      xAxisLabel = None, yAxisLabel = None,
      chart_data =
        [\<lparr>point_name = ''Jan'', point_value = Finite 400\<rparr>,
         \<lparr>point_name = ''Feb'', point_value = Finite 300\<rparr>,
         \<lparr>point_name = ''Mar'', point_value = Finite 600\<rparr>]\<rparr>"

definition addChartBlock :: "nat \<Rightarrow> nat \<Rightarrow> Block list \<Rightarrow> Block list" where
  "addChartBlock now now' blocks =
     blocks @
     [\<lparr>block_id = nat_toString now, block_type = BChart, content = [],
       width = None, tableData = None, chartData = Some defaultChart\<rparr>,
      emptyTextBlock (nat_toString (now' + 1))]"

subsection \<open>Structural edits of \<open>TableBlock\<close>\<close>

text \<open>
  Each edit returns \<open>Inr (Some d')\<close> when it calls \<open>onChange(d')\<close>, \<open>Inr None\<close> when it
  returns without calling \<open>onChange\<close>, and \<open>Inl TypeError\<close> when it reads
  \<open>data.rows[0].length\<close> with no first row.
\<close>

definition addRow :: "TableData \<Rightarrow> error + TableData option" where
  "addRow d =
     (let colCount = (case rows d of [] \<Rightarrow> 1
                      | r # _ \<Rightarrow> if length r = 0 then 1 else length r);
          newRowHeaders =
            (case rowHeaders d of
               None \<Rightarrow> None
             | Some h \<Rightarrow> Some (h @ [nat_toString (length (rows d) + 1)]))
      in Inr (Some (d\<lparr>rows := rows d @ [replicate colCount []],
                       rowHeaders := newRowHeaders\<rparr>)))"

definition removeRow :: "nat \<Rightarrow> TableData \<Rightarrow> error + TableData option" where
  "removeRow index d =
     (if length (rows d) > 1 then
        Inr (Some (d\<lparr>rows := filterIndexNot index (rows d),
                      rowHeaders := map_option (filterIndexNot index) (rowHeaders d)\<rparr>))
      else Inr None)"

definition addColumn :: "TableData \<Rightarrow> error + TableData option" where
  "addColumn d =
     (case colHeaders d of
        None \<Rightarrow>
          Inr (Some (d\<lparr>rows := map (\<lambda>row. row @ [[]]) (rows d), colHeaders := None\<rparr>))
      | Some h \<Rightarrow>
          (case rows d of
             [] \<Rightarrow> Inl TypeError
           | r # _ \<Rightarrow>
               Inr (Some (d\<lparr>rows := map (\<lambda>row. row @ [[]]) (rows d),
                             colHeaders := Some (h @ [fromCharCode (65 + length r)])\<rparr>))))"

definition removeColumn :: "nat \<Rightarrow> TableData \<Rightarrow> error + TableData option" where
  "removeColumn index d =
     (case rows d of
        [] \<Rightarrow> Inl TypeError
      | r # _ \<Rightarrow>
          if length r > 1 then
            Inr (Some (d\<lparr>rows := map (filterIndexNot index) (rows d),
                          colHeaders := map_option (filterIndexNot index) (colHeaders d)\<rparr>))
          else Inr None)"

text \<open>
  The header cells as \<open>TableBlock\<close> renders them:
  \<open>data.colHeaders?.[colIndex] || String.fromCharCode(65 + colIndex)\<close> and
  \<open>data.rowHeaders?.[rowIndex] || (rowIndex + 1).toString()\<close>. An absent list, an index
  beyond its end and an empty stored string all fall through to the positional default.
\<close>

definition shownColHeader :: "TableData \<Rightarrow> nat \<Rightarrow> string" where
  "shownColHeader d colIndex =
     (case colHeaders d of
        None \<Rightarrow> fromCharCode (65 + colIndex)
      | Some h \<Rightarrow>
          if colIndex < length h \<and> h ! colIndex \<noteq> [] then h ! colIndex
          else fromCharCode (65 + colIndex))"

definition shownRowHeader :: "TableData \<Rightarrow> nat \<Rightarrow> string" where
  "shownRowHeader d rowIndex =
     (case rowHeaders d of
        None \<Rightarrow> nat_toString (rowIndex + 1)
      | Some h \<Rightarrow>
          if rowIndex < length h \<and> h ! rowIndex \<noteq> [] then h ! rowIndex
          else nat_toString (rowIndex + 1))"

text \<open>A user's sequence of structural edits; an edit that raises leaves the state as it was.\<close>

datatype TableEdit = AddRow | RemoveRow nat | AddColumn | RemoveColumn nat

fun tableEdit :: "TableEdit \<Rightarrow> TableData \<Rightarrow> error + TableData option" where
  "tableEdit AddRow d = addRow d"
| "tableEdit (RemoveRow i) d = removeRow i d"
| "tableEdit AddColumn d = addColumn d"
| "tableEdit (RemoveColumn i) d = removeColumn i d"

definition applyTableEdit :: "TableEdit \<Rightarrow> TableData \<Rightarrow> TableData" where
  "applyTableEdit e d = (case tableEdit e d of Inr (Some d') \<Rightarrow> d' | _ \<Rightarrow> d)"

definition applyTableEdits :: "TableEdit list \<Rightarrow> TableData \<Rightarrow> TableData" where
  "applyTableEdits es d = fold applyTableEdit es d"

text \<open>The table invariants of the data model.\<close>

definition rectangular :: "TableData \<Rightarrow> bool" where
  "rectangular d \<longleftrightarrow>
     (case rows d of
        [] \<Rightarrow> False
      | r # rs \<Rightarrow>
          1 \<le> length r \<and> list_all (\<lambda>row. length row = length r) rs \<and>
          (case colHeaders d of None \<Rightarrow> True | Some h \<Rightarrow> length h = length r) \<and>
          (case rowHeaders d of None \<Rightarrow> True | Some h \<Rightarrow> length h = length (rows d)))"

subsection \<open>Edits of \<open>ChartBlock\<close>\<close>

definition addPoint :: "ChartData \<Rightarrow> ChartData option" where
  "addPoint d =
     Some (d\<lparr>chart_data := chart_data d @
               [\<lparr>point_name = ''Point '' @ nat_toString (length (chart_data d) + 1),
                 point_value = Finite 0\<rparr>]\<rparr>)"

definition removePoint :: "nat \<Rightarrow> ChartData \<Rightarrow> ChartData option" where
  "removePoint index d =
     (if length (chart_data d) > 1 then
        Some (d\<lparr>chart_data := filterIndexNot index (chart_data d)\<rparr>)
      else None)"

definition toggleType :: "ChartData \<Rightarrow> ChartData option" where
  "toggleType d =
     Some (d\<lparr>chart_type := (if chart_type d = LineChart then BarChart else LineChart)\<rparr>)"

datatype ChartEdit = AddPoint | RemovePoint nat | ToggleType

fun chartEdit :: "ChartEdit \<Rightarrow> ChartData \<Rightarrow> ChartData option" where
  "chartEdit AddPoint d = addPoint d"
| "chartEdit (RemovePoint i) d = removePoint i d"
| "chartEdit ToggleType d = toggleType d"

definition applyChartEdit :: "ChartEdit \<Rightarrow> ChartData \<Rightarrow> ChartData" where
  "applyChartEdit e d = (case chartEdit e d of Some d' \<Rightarrow> d' | None \<Rightarrow> d)"

definition applyChartEdits :: "ChartEdit list \<Rightarrow> ChartData \<Rightarrow> ChartData" where
  "applyChartEdits es d = fold applyChartEdit es d"

section \<open>PDF export (\<open>exportToPDF\<close> in ProjectView.tsx)\<close>

text \<open>
  The lengths of the export (millimetres of the page, pixels of the rendered canvas) are
  JavaScript doubles. The model computes with exact rationals: the rounding of doubles is
  not modelled, and a division by zero, which yields \<open>Infinity\<close> or \<open>NaN\<close> in JavaScript,
  is \<open>0\<close> here, so the statements below take positive widths and heights as hypotheses.
\<close>

record Note =
  note_id :: int
  note_title :: string
  note_content :: string
  note_date :: string

record Canvas =
  canvas_width :: nat
  canvas_height :: nat

text \<open>
  One iteration of the slicing loop: whether \<open>pdf.addPage()\<close> ran first
  (\<open>pageNum > 0\<close>), and the source rectangle \<open>sourceY, currentSliceHeightPx\<close> that
  \<open>drawImage\<close> copies.
\<close>

record Slice =
  sliceNewPage :: bool
  sliceSourceY :: rat
  sliceHeight :: rat

text \<open>
  \<^verbatim>\<open>
  while (heightLeftPx > 0) {
    if (pageNum > 0) pdf.addPage();
    const currentSliceHeightPx = Math.min(heightLeftPx, pxPerPage);
    ... drawImage(canvas, 0, sourceY, canvas.width, currentSliceHeightPx, ...) ...
    sourceY += currentSliceHeightPx;
    heightLeftPx -= currentSliceHeightPx;
    pageNum++;
    if (pageNum > 20) break; // Safety limit
  }
  \<close>
  The loop returns the slices in the order it produced them; \<open>getContext('2d')\<close> is
  taken to succeed, so every iteration draws its slice.
\<close>

function sliceLoop :: "rat \<Rightarrow> rat \<Rightarrow> rat \<Rightarrow> nat \<Rightarrow> Slice list" where
  "sliceLoop pxPerPage heightLeftPx sourceY pageNum =
     (if heightLeftPx > 0 then
        \<lparr>sliceNewPage = (pageNum > 0), sliceSourceY = sourceY,
         sliceHeight = min heightLeftPx pxPerPage\<rparr> #
        (if pageNum + 1 > 20 then []
         else sliceLoop pxPerPage (heightLeftPx - min heightLeftPx pxPerPage)
                (sourceY + min heightLeftPx pxPerPage) (pageNum + 1))
      else [])"
  by pat_completeness auto
termination
  by (relation "measure (\<lambda>(p, h, y, n). 21 - n)") auto

declare sliceLoop.simps [simp del]

text \<open>
  The geometry of one note: \<open>imgWidth = pageWidth - margin * 2\<close>,
  \<open>pageContentHeight = pageHeight - margin * 2\<close> with \<open>margin = 10\<close>, and
  \<open>pxPerPage = (pageContentHeight * canvas.width) / imgWidth\<close>.
\<close>

definition margin :: rat where
  "margin = 10"

definition pxPerPage :: "rat \<Rightarrow> rat \<Rightarrow> Canvas \<Rightarrow> rat" where
  "pxPerPage pageWidth pageHeight canvas =
     ((pageHeight - margin * 2) * of_nat (canvas_width canvas)) / (pageWidth - margin * 2)"

definition noteSlices :: "rat \<Rightarrow> rat \<Rightarrow> Canvas \<Rightarrow> Slice list" where
  "noteSlices pageWidth pageHeight canvas =
     sliceLoop (pxPerPage pageWidth pageHeight canvas) (of_nat (canvas_height canvas)) 0 0"

text \<open>
  The calls made on the \<open>jsPDF\<close> document, in order. An image is the source it was cut
  from, the source rows \<open>y, height\<close>, and the width and height in millimetres it is placed
  with (always at \<open>margin, margin\<close>).
\<close>

datatype RenderTarget = CoverPage | NotePage Note

datatype PdfOp = AddPage | AddImage RenderTarget rat rat rat rat

definition sliceOps :: "Note \<Rightarrow> rat \<Rightarrow> Canvas \<Rightarrow> Slice \<Rightarrow> PdfOp list" where
  "sliceOps note imgWidth canvas s =
     (if sliceNewPage s then [AddPage] else []) @
     [AddImage (NotePage note) (sliceSourceY s) (sliceHeight s) imgWidth
        ((sliceHeight s * imgWidth) / of_nat (canvas_width canvas))]"

text \<open>
  \<open>html2canvas\<close> is a parameter: it returns the canvas, or \<open>Inl message\<close> when it throws.
  The loop over the notes stops at the first throw, as the \<open>try\<close> block does.
\<close>

fun notesOps ::
  "(RenderTarget \<Rightarrow> string + Canvas) \<Rightarrow> rat \<Rightarrow> rat \<Rightarrow> Note list \<Rightarrow> string + PdfOp list" where
  "notesOps html2canvas pageWidth pageHeight [] = Inr []"
| "notesOps html2canvas pageWidth pageHeight (note # rest) =
     (case html2canvas (NotePage note) of
        Inl message \<Rightarrow> Inl message
      | Inr canvas \<Rightarrow>
          (case notesOps html2canvas pageWidth pageHeight rest of
             Inl message \<Rightarrow> Inl message
           | Inr ops \<Rightarrow>
               Inr (AddPage #
                    concat (map (sliceOps note (pageWidth - margin * 2) canvas)
                              (noteSlices pageWidth pageHeight canvas)) @ ops)))"

text \<open>
  The component state that \<open>exportToPDF\<close> touches, and the file handed to \<open>pdf.save\<close>
  (none while nothing was saved).
\<close>

record ExportState =
  exportError :: "string option"
  isExporting :: bool
  savedPdf :: "(string \<times> PdfOp list) option"

definition failureMessage :: "string \<Rightarrow> string" where
  "failureMessage message =
     ''Failed to export PDF: '' @ (if message = [] then ''Unknown error'' else message) @
     ''. Check console for details.''"

definition exportToPDF ::
  "(RenderTarget \<Rightarrow> string + Canvas) \<Rightarrow> rat \<Rightarrow> rat \<Rightarrow> string \<Rightarrow> Note list \<Rightarrow>
     ExportState \<Rightarrow> ExportState" where
  "exportToPDF html2canvas pageWidth pageHeight projectName notes st =
     (if length notes = 0 then st\<lparr>exportError := Some ''No notes to export.''\<rparr>
      else
        (case html2canvas CoverPage of
           Inl message \<Rightarrow>
             st\<lparr>exportError := Some (failureMessage message), isExporting := False\<rparr>
         | Inr coverCanvas \<Rightarrow>
             (case notesOps html2canvas pageWidth pageHeight notes of
                Inl message \<Rightarrow>
                  st\<lparr>exportError := Some (failureMessage message), isExporting := False\<rparr>
              | Inr ops \<Rightarrow>
                  st\<lparr>isExporting := False,
                     savedPdf :=
                       Some (projectName @ ''_Research_Report.pdf'',
                             AddImage CoverPage 0 (of_nat (canvas_height coverCanvas))
                               (pageWidth - margin * 2)
                               ((of_nat (canvas_height coverCanvas) * (pageWidth - margin * 2)) /
                                  of_nat (canvas_width coverCanvas)) # ops)\<rparr>)))"


section \<open>Serialisation (\<open>updateBlocks\<close> and the initialising effect of \<open>RichNoteEditor\<close>)\<close>

subsection \<open>JavaScript values and the platform's \<open>JSON\<close> object\<close>

text \<open>
  The values the editor state can hold at run time. An object is its list of properties
  in insertion order; a property whose value is \<open>undefined\<close> is modelled as absent, which
  is also how \<open>JSON.stringify\<close> treats it.

  \<open>JSON.stringify\<close> and \<open>JSON.parse\<close> are not code of the repository; they are modelled
  after ECMA-262 (\<open>SerializeJSONProperty\<close>, \<open>QuoteJSONString\<close>, the JSON grammar) with
  these limits: strings are lists of 8-bit \<open>char\<close>s, so an escape of a code unit above 255 is
  rejected; numbers are integers, so a literal with a fraction or an exponent is
  rejected and large integers are printed in full; integer-like property names are not
  moved to the front of an object.
\<close>

datatype jsvalue =
    JNull
  | JBool bool
  | JNumber number
  | JString string
  | JArray "jsvalue list"
  | JObject "(string \<times> jsvalue) list"

datatype token =
    TLBracket | TRBracket | TLBrace | TRBrace | TComma | TColon
  | TString string | TNumber int | TTrue | TFalse | TNull

definition hexDigit :: "nat \<Rightarrow> char" where
  "hexDigit n = (if n < 10 then char_of (48 + n) else char_of (87 + n))"

text \<open>\<open>QuoteJSONString\<close>: the escapes of one code unit.\<close>

definition escapeChar :: "char \<Rightarrow> string" where
  "escapeChar c =
     (if c = CHR 0x22 then [CHR 0x5C, CHR 0x22]
      else if c = CHR 0x5C then [CHR 0x5C, CHR 0x5C]
      else if c = CHR 0x08 then [CHR 0x5C, CHR ''b'']
      else if c = CHR 0x0C then [CHR 0x5C, CHR ''f'']
      else if c = CHR 0x0A then [CHR 0x5C, CHR ''n'']
      else if c = CHR 0x0D then [CHR 0x5C, CHR ''r'']
      else if c = CHR 0x09 then [CHR 0x5C, CHR ''t'']
      else if (of_char c :: nat) < 32 then
        [CHR 0x5C, CHR ''u'', CHR ''0'', CHR ''0'',
         hexDigit (of_char c div 16), hexDigit (of_char c mod 16)]
      else [c])"

definition quoteJSONString :: "string \<Rightarrow> string" where
  "quoteJSONString s = CHR 0x22 # concat (map escapeChar s) @ [CHR 0x22]"

definition int_toString :: "int \<Rightarrow> string" where
  "int_toString n = (if n < 0 then CHR ''-'' # nat_toString (nat (- n)) else nat_toString (nat n))"

fun showToken :: "token \<Rightarrow> string" where
  "showToken TLBracket = ''[''"
| "showToken TRBracket = '']''"
| "showToken TLBrace = ''{''"
| "showToken TRBrace = ''}''"
| "showToken TComma = '',''"
| "showToken TColon = '':''"
| "showToken (TString s) = quoteJSONString s"
| "showToken (TNumber n) = int_toString n"
| "showToken TTrue = ''true''"
| "showToken TFalse = ''false''"
| "showToken TNull = ''null''"

text \<open>Elements and members are separated by single commas, with no white space.\<close>

fun commaSep :: "'a list \<Rightarrow> 'a list list \<Rightarrow> 'a list" where
  "commaSep sep [] = []"
| "commaSep sep [x] = x"
| "commaSep sep (x # y # ys) = x @ sep @ commaSep sep (y # ys)"

text \<open>
  \<open>SerializeJSONProperty\<close>, as the tokens it prints: a number that is not finite is
  printed as \<open>null\<close>.
\<close>

fun tokens :: "jsvalue \<Rightarrow> token list" where
  "tokens JNull = [TNull]"
| "tokens (JBool b) = [if b then TTrue else TFalse]"
| "tokens (JNumber n) = (case n of Finite i \<Rightarrow> [TNumber i] | _ \<Rightarrow> [TNull])"
| "tokens (JString s) = [TString s]"
| "tokens (JArray xs) = TLBracket # commaSep [TComma] (map tokens xs) @ [TRBracket]"
| "tokens (JObject kvs) =
     TLBrace # commaSep [TComma] (map (\<lambda>kv. TString (fst kv) # TColon # tokens (snd kv)) kvs) @
     [TRBrace]"

definition JSON_stringify :: "jsvalue \<Rightarrow> string" where
  "JSON_stringify v = concat (map showToken (tokens v))"

subsubsection \<open>The lexer of \<open>JSON.parse\<close>\<close>










subsubsection \<open>The parser of \<open>JSON.parse\<close>\<close>

text \<open>
  The grammar is recognised by a pushdown automaton over the tokens. A frame is a
  container under construction: the elements of an array so far, or the properties of
  an object so far with the key whose value is being read.
\<close>

datatype frame = ArrFrame "jsvalue list" | ObjFrame "(string \<times> jsvalue) list" string

datatype pmode =
    MValue | MFirst | MKeyFirst | MKey | MColon | MAfter | MDone jsvalue

text \<open>A repeated key keeps its first position and takes the last value.\<close>

definition setProp :: "string \<Rightarrow> jsvalue \<Rightarrow> (string \<times> jsvalue) list \<Rightarrow> (string \<times> jsvalue) list" where
  "setProp k v kvs =
     (if k \<in> fst ` set kvs then map (\<lambda>kv. if fst kv = k then (k, v) else kv) kvs
      else kvs @ [(k, v)])"

fun deliver :: "jsvalue \<Rightarrow> frame list \<Rightarrow> frame list \<times> pmode" where
  "deliver v [] = ([], MDone v)"
| "deliver v (ArrFrame xs # st) = (ArrFrame (xs @ [v]) # st, MAfter)"
| "deliver v (ObjFrame kvs k # st) = (ObjFrame (setProp k v kvs) k # st, MAfter)"

fun startValue :: "token \<Rightarrow> frame list \<Rightarrow> (frame list \<times> pmode) option" where
  "startValue TLBracket st = Some (ArrFrame [] # st, MFirst)"
| "startValue TLBrace st = Some (ObjFrame [] [] # st, MKeyFirst)"
| "startValue (TString s) st = Some (deliver (JString s) st)"
| "startValue (TNumber n) st = Some (deliver (JNumber (Finite n)) st)"
| "startValue TTrue st = Some (deliver (JBool True) st)"
| "startValue TFalse st = Some (deliver (JBool False) st)"
| "startValue TNull st = Some (deliver JNull st)"
| "startValue _ st = None"

fun closeArray :: "frame list \<Rightarrow> (frame list \<times> pmode) option" where
  "closeArray (ArrFrame xs # st) = Some (deliver (JArray xs) st)"
| "closeArray _ = None"

fun closeObject :: "frame list \<Rightarrow> (frame list \<times> pmode) option" where
  "closeObject (ObjFrame kvs k # st) = Some (deliver (JObject kvs) st)"
| "closeObject _ = None"

fun readKey :: "token \<Rightarrow> frame list \<Rightarrow> (frame list \<times> pmode) option" where
  "readKey (TString k) (ObjFrame kvs _ # st) = Some (ObjFrame kvs k # st, MColon)"
| "readKey _ _ = None"

fun step :: "token \<Rightarrow> frame list \<times> pmode \<Rightarrow> (frame list \<times> pmode) option" where
  "step t (st, MValue) = startValue t st"
| "step t (st, MFirst) = (if t = TRBracket then closeArray st else startValue t st)"
| "step t (st, MKeyFirst) = (if t = TRBrace then closeObject st else readKey t st)"
| "step t (st, MKey) = readKey t st"
| "step t (st, MColon) = (if t = TColon then Some (st, MValue) else None)"
| "step t (st, MAfter) =
     (if t = TComma then
        (case st of
           ArrFrame _ # _ \<Rightarrow> Some (st, MValue)
         | ObjFrame _ _ # _ \<Rightarrow> Some (st, MKey)
         | [] \<Rightarrow> None)
      else if t = TRBracket then closeArray st
      else if t = TRBrace then closeObject st
      else None)"
| "step t (st, MDone v) = None"

fun run :: "token list \<Rightarrow> frame list \<times> pmode \<Rightarrow> (frame list \<times> pmode) option" where
  "run [] s = Some s"
| "run (t # ts) s = (case step t s of None \<Rightarrow> None | Some s' \<Rightarrow> run ts s')"



subsection \<open>Blocks as run-time values\<close>

text \<open>
  The object a block is at run time, with the optional fields that are present. The
  order of the properties is the order the editor's object literals give them.
\<close>

definition blockTypeName :: "BlockType \<Rightarrow> string" where
  "blockTypeName t =
     (case t of BText \<Rightarrow> ''text'' | BImage \<Rightarrow> ''image'' | BTable \<Rightarrow> ''table'' | BChart \<Rightarrow> ''chart'')"

definition chartTypeName :: "ChartType \<Rightarrow> string" where
  "chartTypeName t = (case t of LineChart \<Rightarrow> ''line'' | BarChart \<Rightarrow> ''bar'')"

definition optionalProp :: "string \<Rightarrow> ('a \<Rightarrow> jsvalue) \<Rightarrow> 'a option \<Rightarrow> (string \<times> jsvalue) list" where
  "optionalProp k f x = (case x of None \<Rightarrow> [] | Some y \<Rightarrow> [(k, f y)])"

definition stringsValue :: "string list \<Rightarrow> jsvalue" where
  "stringsValue xs = JArray (map JString xs)"

definition tableValue :: "TableData \<Rightarrow> jsvalue" where
  "tableValue d =
     JObject ([(''rows'', JArray (map stringsValue (rows d)))] @
              optionalProp ''colHeaders'' stringsValue (colHeaders d) @
              optionalProp ''rowHeaders'' stringsValue (rowHeaders d))"

definition pointValue :: "DataPoint \<Rightarrow> jsvalue" where
  "pointValue p = JObject [(''name'', JString (point_name p)), (''value'', JNumber (point_value p))]"

definition chartValue :: "ChartData \<Rightarrow> jsvalue" where
  "chartValue d =
     JObject ([(''type'', JString (chartTypeName (chart_type d)))] @
              optionalProp ''title'' JString (title d) @
              optionalProp ''xAxisLabel'' JString (xAxisLabel d) @
              optionalProp ''yAxisLabel'' JString (yAxisLabel d) @
              [(''data'', JArray (map pointValue (chart_data d)))])"

definition blockValue :: "Block \<Rightarrow> jsvalue" where
  "blockValue b =
     JObject ([(''id'', JString (block_id b)),
               (''type'', JString (blockTypeName (block_type b))),
               (''content'', JString (content b))] @
              optionalProp ''width'' JNumber (width b) @
              optionalProp ''tableData'' tableValue (tableData b) @
              optionalProp ''chartData'' chartValue (chartData b))"

definition blocksValue :: "Block list \<Rightarrow> jsvalue" where
  "blocksValue blocks = JArray (map blockValue blocks)"

subsection \<open>\<open>encode\<close> and \<open>decode\<close>\<close>

text \<open>
  \<open>updateBlocks\<close> stores the new array and hands \<open>JSON.stringify(newBlocks)\<close> to
  \<open>onChange\<close>: the pair of the new state and the emitted string.
\<close>

definition encode :: "Block list \<Rightarrow> string" where
  "encode blocks = JSON_stringify (blocksValue blocks)"

definition updateBlocks :: "Block list \<Rightarrow> Block list \<times> string" where
  "updateBlocks newBlocks = (newBlocks, encode newBlocks)"









subsection \<open>Notions used in the statements and proofs\<close>



text \<open>A chart whose only data point has the value \<open>Infinity\<close>.\<close>

definition infiniteChart :: "Block list" where
  "infiniteChart =
     [\<lparr>block_id = ''7'', block_type = BChart, content = [], width = None, tableData = None,
       chartData = Some \<lparr>chart_type = LineChart, title = None, xAxisLabel = None,
         yAxisLabel = None,
         chart_data = [\<lparr>point_name = ''Jan'', point_value = PosInfinity\<rparr>]\<rparr>\<rparr>]"








section \<open>Properties of the block handlers\<close>

text \<open>Evaluations of the conversions at a few numbers, for the examples below.\<close>

lemma nat_toString_5: "nat_toString 5 = ''5''"
  by code_simp

lemma char_67: "char_of (67::nat) = CHR ''C''"
  by code_simp

lemma char_66: "char_of (66::nat) = CHR ''B''"
  by code_simp

lemma nat_toString_2: "nat_toString (Suc (Suc 0)) = ''2''"
  by code_simp

text \<open>
  C1, as the code has it. On a non-empty document \<open>removeBlock\<close> never raises. When the
  document is a single text block, the result is one fresh text block with empty content
  (its id is the clock reading, not the old id), whatever \<open>blockId\<close> is, and calling
  \<open>removeBlock\<close> again keeps one text block with empty content. In every other case the
  result is exactly the blocks whose id differs from \<open>blockId\<close>, in their original
  order; it is non-empty as soon as some block has another id.
\<close>

theorem removeBlock_result:
  "blocks \<noteq> [] \<Longrightarrow>
     (\<exists>bs. removeBlock now i blocks = Inr bs \<and>
        (if length blocks = 1 \<and> block_type (hd blocks) = BText
         then bs = [emptyTextBlock (nat_toString now)] \<and>
              (\<exists>bs'. removeBlock now' i' bs = Inr bs' \<and> length bs' = 1 \<and>
                 block_type (hd bs') = BText \<and> content (hd bs') = [])
         else bs = filter (\<lambda>b. block_id b \<noteq> i) blocks \<and>
              ((\<exists>b \<in> set blocks. block_id b \<noteq> i) \<longrightarrow> bs \<noteq> [])))"
  by (cases blocks) (auto simp: removeBlock_def emptyTextBlock_def filter_empty_conv)

theorem removeBlock_result_witness:
  "[emptyTextBlock ''a'', emptyTextBlock ''b''] \<noteq> [] \<and>
   removeBlock 5 ''a'' [emptyTextBlock ''a'', emptyTextBlock ''b''] = Inr [emptyTextBlock ''b''] \<and>
   removeBlock 5 ''a'' [emptyTextBlock ''a''\<lparr>content := ''hello''\<rparr>] = Inr [emptyTextBlock ''5'']"
proof -
  have 1: "[emptyTextBlock ''a'', emptyTextBlock ''b''] \<noteq> []" by simp
  have 2: "[emptyTextBlock ''a''\<lparr>content := ''hello''\<rparr>] \<noteq> []" by simp
  show ?thesis
    using removeBlock_result [OF 1, of 5 "''a''" 0 "''a''"]
      removeBlock_result [OF 2, of 5 "''a''" 0 "''a''"]
    by (simp add: emptyTextBlock_def nat_toString_5)
qed

text \<open>
  C1 as stated fails: a document whose only block is an image (\<open>decode\<close> of a stored
  one-image array, or what is left after the text blocks around an image were removed)
  is emptied by \<open>removeBlock\<close> with that block's id, since the guard asks for a text
  block.
\<close>

theorem removeBlock_empties_document:
  "removeBlock 5 ''a''
     [\<lparr>block_id = ''a'', block_type = BImage, content = ''data:image/png;base64,AAAA'',
       width = Some (Finite 100), tableData = None, chartData = None\<rparr>] = Inr []"
  by (simp add: removeBlock_def)

section \<open>Properties of the table edits\<close>

lemma filter_enumerate_length:
  "length (filter (\<lambda>(j, _). j \<noteq> i) (enumerate n xs)) =
     (if n \<le> i \<and> i < n + length xs then length xs - 1 else length xs)"
proof (induction xs arbitrary: n)
  case Nil
  then show ?case by simp
next
  case (Cons x xs)
  show ?case
  proof (cases "i = n")
    case True
    then show ?thesis using Cons [of "Suc n"] by simp
  next
    case False
    then show ?thesis using Cons [of "Suc n"] by auto
  qed
qed

lemma filterIndexNot_length:
  "length (filterIndexNot i xs) = (if i < length xs then length xs - 1 else length xs)"
  using filter_enumerate_length [of i 0 xs] by (simp add: filterIndexNot_def)

lemma rectangular_iff:
  "rectangular d \<longleftrightarrow>
     rows d \<noteq> [] \<and> 1 \<le> length (hd (rows d)) \<and>
     list_all (\<lambda>row. length row = length (hd (rows d))) (rows d) \<and>
     (case colHeaders d of None \<Rightarrow> True | Some h \<Rightarrow> length h = length (hd (rows d))) \<and>
     (case rowHeaders d of None \<Rightarrow> True | Some h \<Rightarrow> length h = length (rows d))"
  by (cases "rows d") (auto simp: rectangular_def split: option.splits)

lemma list_all_filterIndexNot:
  "list_all P xs \<Longrightarrow> list_all P (filterIndexNot i xs)"
  by (auto simp: filterIndexNot_def list_all_iff in_set_enumerate_eq)

lemma hd_filterIndexNot_in:
  "filterIndexNot i xs \<noteq> [] \<Longrightarrow> hd (filterIndexNot i xs) \<in> set xs"
proof -
  assume a: "filterIndexNot i xs \<noteq> []"
  have "set (filterIndexNot i xs) \<subseteq> set xs"
    by (auto simp: filterIndexNot_def in_set_enumerate_eq)
  with a show ?thesis using hd_in_set by blast
qed

lemma rectangular_addRow:
  "rectangular d \<Longrightarrow> \<exists>d'. addRow d = Inr (Some d') \<and> rectangular d'"
  by (cases "rows d") (auto simp: rectangular_def addRow_def Let_def split: option.splits)

lemma rectangular_removeRow:
  assumes "rectangular d"
  shows "\<exists>r. removeRow i d = Inr r \<and> (case r of None \<Rightarrow> True | Some d' \<Rightarrow> rectangular d')"
proof (cases "length (rows d) > 1")
  case False
  then show ?thesis by (simp add: removeRow_def)
next
  case True
  let ?rs = "filterIndexNot i (rows d)"
  from assms have all: "list_all (\<lambda>row. length row = length (hd (rows d))) (rows d)"
    and one: "1 \<le> length (hd (rows d))"
    and rh: "case rowHeaders d of None \<Rightarrow> True | Some h \<Rightarrow> length h = length (rows d)"
    and ch: "case colHeaders d of None \<Rightarrow> True | Some h \<Rightarrow> length h = length (hd (rows d))"
    by (simp_all add: rectangular_iff)
  from True have ne: "?rs \<noteq> []"
    using filterIndexNot_length [of i "rows d"] by (auto split: if_splits)
  from hd_filterIndexNot_in [OF ne] all have hd_len: "length (hd ?rs) = length (hd (rows d))"
    by (simp add: list_all_iff)
  have "rectangular (d\<lparr>rows := ?rs, rowHeaders := map_option (filterIndexNot i) (rowHeaders d)\<rparr>)"
    unfolding rectangular_iff using ne hd_len one ch rh list_all_filterIndexNot [OF all, of i]
    by (auto simp: filterIndexNot_length split: option.splits)
  with True show ?thesis by (simp add: removeRow_def)
qed

lemma rectangular_addColumn:
  "rectangular d \<Longrightarrow> \<exists>d'. addColumn d = Inr (Some d') \<and> rectangular d'"
  by (cases "rows d")
     (auto simp: rectangular_def addColumn_def list_all_iff split: option.splits)

lemma rectangular_removeColumn:
  assumes "rectangular d"
  shows "\<exists>r. removeColumn i d = Inr r \<and> (case r of None \<Rightarrow> True | Some d' \<Rightarrow> rectangular d')"
proof (cases "rows d")
  case Nil
  with assms show ?thesis by (simp add: rectangular_def)
next
  case (Cons r rs)
  show ?thesis
  proof (cases "length r > 1")
    case False
    with Cons show ?thesis by (simp add: removeColumn_def)
  next
    case True
    define k where "k = (if i < length r then length r - 1 else length r)"
    from True have k1: "1 \<le> k" by (auto simp: k_def)
    from assms Cons have all: "list_all (\<lambda>row. length row = length r) rs"
      and ch: "case colHeaders d of None \<Rightarrow> True | Some h \<Rightarrow> length h = length r"
      and rh: "case rowHeaders d of None \<Rightarrow> True | Some h \<Rightarrow> length h = Suc (length rs)"
      by (simp_all add: rectangular_def split: option.splits)
    have hd_k: "length (filterIndexNot i r) = k"
      by (simp add: filterIndexNot_length k_def)
    from all have rest_k: "list_all (\<lambda>row. length row = k) (map (filterIndexNot i) rs)"
      by (simp add: list_all_iff filterIndexNot_length k_def)
    from ch have ch_k: "case map_option (filterIndexNot i) (colHeaders d) of
        None \<Rightarrow> True | Some h \<Rightarrow> length h = k"
      by (cases "colHeaders d") (auto simp: filterIndexNot_length k_def)
    have "rectangular (d\<lparr>rows := map (filterIndexNot i) (rows d),
            colHeaders := map_option (filterIndexNot i) (colHeaders d)\<rparr>)"
      using Cons k1 hd_k rest_k ch_k rh by (simp add: rectangular_def split: option.splits)
    with True Cons show ?thesis by (simp add: removeColumn_def)
  qed
qed

lemma rectangular_applyTableEdit:
  "rectangular d \<Longrightarrow> rectangular (applyTableEdit e d)"
proof (cases e)
  case AddRow
  assume "rectangular d"
  from rectangular_addRow [OF this] AddRow show ?thesis by (auto simp: applyTableEdit_def)
next
  case (RemoveRow i)
  assume r: "rectangular d"
  from rectangular_removeRow [OF r, of i] RemoveRow r show ?thesis
    by (auto simp: applyTableEdit_def split: option.splits)
next
  case AddColumn
  assume "rectangular d"
  from rectangular_addColumn [OF this] AddColumn show ?thesis by (auto simp: applyTableEdit_def)
next
  case (RemoveColumn i)
  assume r: "rectangular d"
  from rectangular_removeColumn [OF r, of i] RemoveColumn r show ?thesis
    by (auto simp: applyTableEdit_def split: option.splits)
qed

lemma rectangular_fold:
  "rectangular d \<Longrightarrow> rectangular (fold applyTableEdit es d)"
  by (induction es arbitrary: d) (simp_all add: rectangular_applyTableEdit)

lemma tableEdit_no_error:
  "rectangular d \<Longrightarrow> \<exists>r. tableEdit e d = Inr r"
  using rectangular_addRow [of d] rectangular_addColumn [of d]
    rectangular_removeRow [of d] rectangular_removeColumn [of d]
  by (cases e) auto


text \<open>
  C5. Starting from a rectangular table (at least one row and one column, every row of
  the same length, every stored header list of the matching length), any sequence of
  \<open>addRow\<close>, \<open>addColumn\<close>, \<open>removeRow\<close> and \<open>removeColumn\<close> leaves the table
  rectangular with matching header lists, and no edit raises. \<open>removeRow\<close> does not call
  \<open>onChange\<close> on a table of exactly one row, and \<open>removeColumn\<close> does not when every row
  has exactly one cell.
\<close>

theorem table_edits_keep_rectangular:
  "rectangular d \<Longrightarrow>
     rectangular (applyTableEdits es d) \<and>
     (\<exists>r. tableEdit e d = Inr r) \<and>
     (length (rows d) = 1 \<longrightarrow> removeRow i d = Inr None) \<and>
     (list_all (\<lambda>row. length row = 1) (rows d) \<longrightarrow> removeColumn i d = Inr None)"
proof (intro conjI impI)
  assume r: "rectangular d"
  show "rectangular (applyTableEdits es d)"
    using r by (simp add: applyTableEdits_def rectangular_fold)
  show "\<exists>r. tableEdit e d = Inr r" using r by (rule tableEdit_no_error)
  show "removeRow i d = Inr None" if "length (rows d) = 1"
    using that by (simp add: removeRow_def)
  show "removeColumn i d = Inr None" if "list_all (\<lambda>row. length row = 1) (rows d)"
    using that r by (cases "rows d") (auto simp: removeColumn_def rectangular_def)
qed

theorem table_edits_keep_rectangular_witness:
  "rectangular \<lparr>rows = [[''x'']], colHeaders = Some [''A''], rowHeaders = None\<rparr> \<and>
   rectangular (applyTableEdits [AddRow, AddColumn, RemoveRow 0, RemoveColumn 5, RemoveColumn 0]
     \<lparr>rows = [[''x'']], colHeaders = Some [''A''], rowHeaders = None\<rparr>) \<and>
   removeRow 0 \<lparr>rows = [[''x'']], colHeaders = Some [''A''], rowHeaders = None\<rparr> = Inr None \<and>
   removeColumn 0 \<lparr>rows = [[''x'']], colHeaders = Some [''A''], rowHeaders = None\<rparr> = Inr None"
proof -
  let ?d = "\<lparr>rows = [[''x'']], colHeaders = Some [''A''], rowHeaders = None\<rparr>"
  have r: "rectangular ?d" by (simp add: rectangular_def)
  from table_edits_keep_rectangular [OF r, of "[AddRow, AddColumn, RemoveRow 0, RemoveColumn 5, RemoveColumn 0]" AddRow 0]
  show ?thesis using r by simp
qed


section \<open>Stored and derived table headers\<close>

lemma fold_colHeaders_None:
  "colHeaders d = None \<Longrightarrow> colHeaders (fold applyTableEdit es d) = None"
proof (induction es arbitrary: d)
  case Nil
  then show ?case by simp
next
  case (Cons e es)
  have "colHeaders (applyTableEdit e d) = None"
    using Cons.prems
    by (cases e)
       (auto simp: applyTableEdit_def addRow_def removeRow_def addColumn_def removeColumn_def
          Let_def split: list.splits)
  from Cons.IH [OF this] show ?case by simp
qed

lemma fold_rowHeaders_None:
  "rowHeaders d = None \<Longrightarrow> rowHeaders (fold applyTableEdit es d) = None"
proof (induction es arbitrary: d)
  case Nil
  then show ?case by simp
next
  case (Cons e es)
  have "rowHeaders (applyTableEdit e d) = None"
    using Cons.prems
    by (cases e)
       (auto simp: applyTableEdit_def addRow_def removeRow_def addColumn_def removeColumn_def
          Let_def split: list.splits option.splits)
  from Cons.IH [OF this] show ?case by simp
qed

text \<open>
  C6, as the code has it. A table whose column (row) headers are absent keeps them absent
  through every sequence of \<open>addRow\<close>, \<open>addColumn\<close>, \<open>removeRow\<close> and
  \<open>removeColumn\<close>, and the header shown at position \<open>j\<close> is then the positional
  default \<open>String.fromCharCode(65 + j)\<close> (the 1-based ordinal for rows), computed when
  rendering. \<open>addRow\<close> and \<open>addColumn\<close> append a default header only to a header list
  that is already stored.
\<close>

theorem absent_headers_stay_absent:
  "(colHeaders d = None \<longrightarrow>
      colHeaders (applyTableEdits es d) = None \<and> shownColHeader d j = fromCharCode (65 + j)) \<and>
   (rowHeaders d = None \<longrightarrow>
      rowHeaders (applyTableEdits es d) = None \<and> shownRowHeader d j = nat_toString (j + 1)) \<and>
   (rowHeaders d = Some h \<longrightarrow>
      (\<exists>d'. addRow d = Inr (Some d') \<and>
         rowHeaders d' = Some (h @ [nat_toString (length (rows d) + 1)]))) \<and>
   (colHeaders d = Some h \<and> rows d \<noteq> [] \<longrightarrow>
      (\<exists>d'. addColumn d = Inr (Some d') \<and>
         colHeaders d' = Some (h @ [fromCharCode (65 + length (hd (rows d)))])))"
  by (cases "rows d")
     (auto simp: applyTableEdits_def fold_colHeaders_None fold_rowHeaders_None
        shownColHeader_def shownRowHeader_def addRow_def addColumn_def Let_def)

theorem absent_headers_stay_absent_witness:
  "colHeaders \<lparr>rows = [[''x'']], colHeaders = None, rowHeaders = Some [''r'']\<rparr> = None \<and>
   colHeaders (applyTableEdits [AddColumn, AddRow, RemoveColumn 0]
      \<lparr>rows = [[''x'']], colHeaders = None, rowHeaders = Some [''r'']\<rparr>) = None \<and>
   shownColHeader \<lparr>rows = [[''x'']], colHeaders = None, rowHeaders = Some [''r'']\<rparr> 2 = ''C'' \<and>
   (\<exists>d'. addRow \<lparr>rows = [[''x'']], colHeaders = None, rowHeaders = Some [''r'']\<rparr> = Inr (Some d') \<and>
      rowHeaders d' = Some [''r'', ''2'']) \<and>
   rowHeaders \<lparr>rows = [[''x'']], colHeaders = Some [''c''], rowHeaders = None\<rparr> = None \<and>
   rowHeaders (applyTableEdits [AddColumn, AddRow, RemoveColumn 0]
      \<lparr>rows = [[''x'']], colHeaders = Some [''c''], rowHeaders = None\<rparr>) = None \<and>
   shownRowHeader \<lparr>rows = [[''x'']], colHeaders = Some [''c''], rowHeaders = None\<rparr> 1 = ''2'' \<and>
   (\<exists>d'. addColumn \<lparr>rows = [[''x'']], colHeaders = Some [''c''], rowHeaders = None\<rparr> = Inr (Some d') \<and>
      colHeaders d' = Some [''c'', ''B''])"
  using absent_headers_stay_absent
    [of "\<lparr>rows = [[''x'']], colHeaders = None, rowHeaders = Some [''r'']\<rparr>"
      "[AddColumn, AddRow, RemoveColumn 0]" 2 "[''r'']"]
    absent_headers_stay_absent
    [of "\<lparr>rows = [[''x'']], colHeaders = Some [''c''], rowHeaders = None\<rparr>"
      "[AddColumn, AddRow, RemoveColumn 0]" 1 "[''c'']"]
    char_67 char_66 nat_toString_2
  by (simp add: fromCharCode_def)

text \<open>
  C6 as stated fails for \<open>appendTable\<close>: \<open>addTableBlock\<close> writes the headers
  \<open>A, B, C\<close> and \<open>1, 2\<close> into the stored table at creation, before any header edit
  and with no stored headers existing beforehand.
\<close>

theorem addTableBlock_stores_headers:
  "map tableData (addTableBlock 5 5 []) =
     [Some \<lparr>rows = [['''', '''', ''''], ['''', '''', '''']],
            colHeaders = Some [''A'', ''B'', ''C''], rowHeaders = Some [''1'', ''2'']\<rparr>,
      None]"
  by (simp add: addTableBlock_def defaultTable_def emptyTextBlock_def)

section \<open>Mutations with an absent target\<close>




section \<open>Chart data points\<close>

lemma chart_fold_min:
  "1 \<le> length (chart_data d) \<Longrightarrow> 1 \<le> length (chart_data (fold applyChartEdit es d))"
proof (induction es arbitrary: d)
  case Nil
  then show ?case by simp
next
  case (Cons e es)
  have "1 \<le> length (chart_data (applyChartEdit e d))"
    using Cons.prems
    by (cases e)
       (auto simp: applyChartEdit_def addPoint_def removePoint_def toggleType_def
          filterIndexNot_def filter_enumerate_length)
  from Cons.IH [OF this] show ?case by simp
qed

text \<open>
  C9. \<open>addChartBlock\<close> appends a chart block holding a line chart with three data
  points (and a trailing text block); \<open>addPoint\<close> grows the data by one point;
  \<open>removePoint\<close> does not call \<open>onChange\<close> on a chart of exactly one point; and a chart
  with at least one point keeps at least one through every sequence of \<open>addPoint\<close>,
  \<open>removePoint\<close> and \<open>toggleType\<close>.
\<close>

theorem chart_keeps_a_point:
  "map chartData (addChartBlock now now' blocks) = map chartData blocks @ [Some defaultChart, None] \<and>
   chart_type defaultChart = LineChart \<and> length (chart_data defaultChart) = 3 \<and>
   (\<exists>d'. addPoint d = Some d' \<and> length (chart_data d') = length (chart_data d) + 1) \<and>
   (length (chart_data d) = 1 \<longrightarrow> removePoint i d = None) \<and>
   (1 \<le> length (chart_data d) \<longrightarrow> 1 \<le> length (chart_data (applyChartEdits es d)))"
  using chart_fold_min [of d es]
  by (simp add: addChartBlock_def defaultChart_def emptyTextBlock_def addPoint_def
        removePoint_def applyChartEdits_def)

theorem chart_keeps_a_point_witness:
  "length (chart_data (defaultChart\<lparr>chart_data := [\<lparr>point_name = ''Jan'', point_value = Finite 400\<rparr>]\<rparr>)) = 1 \<and>
   removePoint 0 (defaultChart\<lparr>chart_data := [\<lparr>point_name = ''Jan'', point_value = Finite 400\<rparr>]\<rparr>) = None \<and>
   1 \<le> length (chart_data (applyChartEdits [RemovePoint 0, AddPoint, RemovePoint 0, RemovePoint 0]
     (defaultChart\<lparr>chart_data := [\<lparr>point_name = ''Jan'', point_value = Finite 400\<rparr>]\<rparr>)))"
  using chart_keeps_a_point [of 0 0 "[]"
      "defaultChart\<lparr>chart_data := [\<lparr>point_name = ''Jan'', point_value = Finite 400\<rparr>]\<rparr>" 0
      "[RemovePoint 0, AddPoint, RemovePoint 0, RemovePoint 0]"]
  by simp

section \<open>Properties of the slicing loop and of the export\<close>

lemma sliceLoop_length_le: "n \<le> 20 \<Longrightarrow> length (sliceLoop P h y n) \<le> 21 - n"
proof (induction P h y n rule: sliceLoop.induct)
  case (1 P h y n)
  show ?case
  proof (cases "0 < h \<and> \<not> n + 1 > 20")
    case True
    with 1 show ?thesis by (subst sliceLoop.simps) auto
  next
    case False
    with 1 show ?thesis by (subst sliceLoop.simps) auto
  qed
qed

lemma ceiling_step:
  fixes h P :: rat
  assumes "0 < P" "P < h"
  shows "nat \<lceil>h / P\<rceil> = Suc (nat \<lceil>(h - P) / P\<rceil>)"
proof -
  from assms have "(h - P) / P = h / P - 1" by (simp add: diff_divide_distrib)
  then have c: "\<lceil>(h - P) / P\<rceil> = \<lceil>h / P\<rceil> - 1" by simp
  from assms have "1 < h / P" by simp
  then have "1 < \<lceil>h / P\<rceil>" by (simp add: less_ceiling_iff)
  with c show ?thesis by arith
qed

lemma ceiling_one:
  fixes h P :: rat
  assumes "0 < h" "h \<le> P"
  shows "nat \<lceil>h / P\<rceil> = 1"
proof -
  from assms have "0 < h / P" "h / P \<le> 1" by simp_all
  then have "\<lceil>h / P\<rceil> = 1" by (simp add: ceiling_eq_iff)
  then show ?thesis by simp
qed

lemma sliceLoop_length:
  "0 < P \<Longrightarrow> n \<le> 20 \<Longrightarrow> length (sliceLoop P h y n) = min (nat \<lceil>h / P\<rceil>) (21 - n)"
proof (induction P h y n rule: sliceLoop.induct)
  case (1 P h y n)
  show ?case
  proof (cases "0 < h")
    case False
    then have "h / P \<le> 0" using 1(2) by (simp add: divide_le_0_iff)
    then have "\<lceil>h / P\<rceil> \<le> 0" by (simp add: ceiling_le_iff)
    with False show ?thesis by (subst sliceLoop.simps) simp
  next
    case pos: True
    show ?thesis
    proof (cases "n = 20")
      case True
      have "1 \<le> nat \<lceil>h / P\<rceil>"
        using pos 1(2) by (simp add: less_ceiling_iff Suc_le_eq)
      with pos True show ?thesis by (subst sliceLoop.simps) simp
    next
      case False
      with 1(3) have n: "n < 20" by simp
      show ?thesis
      proof (cases "h \<le> P")
        case True
        have "sliceLoop P (h - min h P) (y + min h P) (n + 1) = []"
          using True by (subst sliceLoop.simps) (simp add: min_def)
        with pos n ceiling_one [OF pos True] show ?thesis
          by (subst sliceLoop.simps) simp
      next
        case False
        then have lt: "P < h" by simp
        then have m: "min h P = P" by simp
        have ih: "length (sliceLoop P (h - P) (y + P) (n + 1)) =
              min (nat \<lceil>(h - P) / P\<rceil>) (21 - (n + 1))"
          using 1(1) [OF pos] n 1(2) m by simp
        have "length (sliceLoop P h y n) = Suc (length (sliceLoop P (h - P) (y + P) (n + 1)))"
          using pos n m by (subst sliceLoop.simps) simp
        with ih n ceiling_step [OF 1(2) lt] show ?thesis by arith
      qed
    qed
  qed
qed

lemma sliceLoop_sum:
  "0 < P \<Longrightarrow> n \<le> 20 \<Longrightarrow> 0 \<le> h \<Longrightarrow>
     sum_list (map sliceHeight (sliceLoop P h y n)) = min h (of_nat (21 - n) * P)"
proof (induction P h y n rule: sliceLoop.induct)
  case (1 P h y n)
  show ?case
  proof (cases "0 < h")
    case False
    with 1(4) have "h = 0" by simp
    then show ?thesis using 1(2) by (subst sliceLoop.simps) (simp add: min_def)
  next
    case pos: True
    show ?thesis
    proof (cases "n = 20")
      case True
      with pos show ?thesis by (subst sliceLoop.simps) simp
    next
      case False
      with 1(3) have n: "n < 20" by simp
      have k: "(of_nat (21 - n) :: rat) = of_nat (20 - n) + 1"
        using n by (simp add: of_nat_diff)
      have nn: "0 \<le> (of_nat (20 - n) :: rat) * P" using 1(2) by simp
      have step: "sum_list (map sliceHeight (sliceLoop P h y n)) =
          min h P + sum_list (map sliceHeight (sliceLoop P (h - min h P) (y + min h P) (n + 1)))"
        using pos n by (subst sliceLoop.simps) simp
      show ?thesis
      proof (cases "h \<le> P")
        case True
        have "sliceLoop P (h - min h P) (y + min h P) (n + 1) = []"
          using True by (subst sliceLoop.simps) (simp add: min_def)
        with step True have "sum_list (map sliceHeight (sliceLoop P h y n)) = h" by simp
        moreover have "h \<le> of_nat (21 - n) * P" using True nn by (simp add: k algebra_simps)
        ultimately show ?thesis by simp
      next
        case False
        then have m: "min h P = P" by simp
        have "sum_list (map sliceHeight (sliceLoop P (h - P) (y + P) (n + 1))) =
              min (h - P) (of_nat (20 - n) * P)"
          using 1(1) [OF pos] n 1(2) m False by simp
        with step m show ?thesis by (simp add: k min_def algebra_simps)
      qed
    qed
  qed
qed





text \<open>
  C8, as the code has it. The slicing loop terminates for every height and every page
  geometry (\<open>sliceLoop\<close> is a total function) and produces at most 21 slices: the test
  \<open>pageNum > 20\<close> runs after the increment, so the loop is left after the 21st slice.
  When it stops with fewer than 21 slices, the remaining height has reached 0: the
  slices' heights sum to the whole height.
\<close>

theorem slice_count_bounded:
  "length (sliceLoop P H y 0) \<le> 21 \<and>
   (0 < P \<and> 0 \<le> H \<and> length (sliceLoop P H y 0) < 21 \<longrightarrow>
      sum_list (map sliceHeight (sliceLoop P H y 0)) = H)"
proof (intro conjI impI)
  show "length (sliceLoop P H y 0) \<le> 21" using sliceLoop_length_le [of 0 P H y] by simp
  assume a: "0 < P \<and> 0 \<le> H \<and> length (sliceLoop P H y 0) < 21"
  then have "nat \<lceil>H / P\<rceil> < 21"
    using sliceLoop_length [of P 0 H y] by (simp add: min_less_iff_disj)
  then have "\<lceil>H / P\<rceil> \<le> 21" by arith
  then have "H / P \<le> of_int 21" by (simp only: ceiling_le_iff)
  then have "H / P \<le> 21" by simp
  with a have "H \<le> 21 * P" by (simp add: pos_divide_le_eq)
  then show "sum_list (map sliceHeight (sliceLoop P H y 0)) = H"
    using sliceLoop_sum [of P 0 H y] a by simp
qed

theorem slice_count_bounded_witness:
  "length (sliceLoop 10 34 0 0) \<le> 21 \<and> (0::rat) < 10 \<and> (0::rat) \<le> 34 \<and>
   length (sliceLoop 10 34 0 0) < 21 \<and> sum_list (map sliceHeight (sliceLoop 10 34 0 0)) = 34"
proof -
  have l: "length (sliceLoop 10 34 0 0) = 4" by (simp add: sliceLoop.simps)
  from slice_count_bounded [of 10 34 0] l show ?thesis by simp
qed

text \<open>
  C8 as stated fails: a surface 100 pixels high with one pixel per page yields 21 slices,
  one more than the 20 pages the claim allows.
\<close>

theorem twenty_one_slices:
  "length (sliceLoop 1 100 0 0) = 21"
  by (simp add: sliceLoop_length)

text \<open>
  C10. With no notes, \<open>exportToPDF\<close> sets the error \<open>No notes to export.\<close> and returns:
  nothing is rendered, no file is saved, and \<open>isExporting\<close> is not touched.
\<close>

theorem export_of_no_notes:
  "exportToPDF html2canvas pageWidth pageHeight projectName [] st =
     st\<lparr>exportError := Some ''No notes to export.''\<rparr> \<and>
   savedPdf (exportToPDF html2canvas pageWidth pageHeight projectName [] st) = savedPdf st \<and>
   isExporting (exportToPDF html2canvas pageWidth pageHeight projectName [] st) = isExporting st"
  by (simp add: exportToPDF_def)

section \<open>\<open>JSON.parse\<close> reads back what \<open>JSON.stringify\<close> prints\<close>

subsection \<open>The lexer on printed tokens\<close>






























subsection \<open>The parser on the tokens of a value\<close>


lemma run_append: "run (a @ b) s = (case run a s of None \<Rightarrow> None | Some s' \<Rightarrow> run b s')"
  by (induction a arbitrary: s) (simp_all split: option.splits)









subsection \<open>A text that starts with a bracket parses to an array\<close>



















subsection \<open>Distinct documents are distinct values\<close>















lemma encode_infiniteChart:
  "encode infiniteChart = ''[{'' @ quoteJSONString ''id'' @ '':'' @ quoteJSONString ''7'' @ '','' @
     quoteJSONString ''type'' @ '':'' @ quoteJSONString ''chart'' @ '','' @
     quoteJSONString ''content'' @ '':'' @ quoteJSONString '''' @ '','' @
     quoteJSONString ''chartData'' @ '':{'' @
     quoteJSONString ''type'' @ '':'' @ quoteJSONString ''line'' @ '','' @
     quoteJSONString ''data'' @ '':[{'' @
     quoteJSONString ''name'' @ '':'' @ quoteJSONString ''Jan'' @ '','' @
     quoteJSONString ''value'' @ '':null}]}}]''"
  by code_simp

section \<open>Round trip and fallback of the serialiser\<close>







end
